theory Spec2Isabelle
  imports Complex_Main
begin

section \<open>Python values\<close>

text \<open>
  The ledger of \<^verbatim>\<open>expense_report.py\<close> is dynamically typed: an amount is whatever
  the caller passes. The values that the ledger code distinguishes are modelled here:
  \<^item> \<open>PInt\<close>: a Python \<^verbatim>\<open>int\<close> (unbounded);
  \<^item> \<open>PFloat\<close>: a Python \<^verbatim>\<open>float\<close>. A float is modelled by the exact rational
    number it denotes, with exact arithmetic: the rounding error of binary64 addition,
    the infinities and NaN are outside the model;
  \<^item> \<open>PBool\<close>: a Python \<^verbatim>\<open>bool\<close>, whose type is neither \<^verbatim>\<open>int\<close> nor
    \<^verbatim>\<open>float\<close> for the \<^verbatim>\<open>type(x) == int\<close> tests of the source, but which
    compares and adds as 0 or 1;
  \<^item> \<open>PStr\<close> and \<open>PNone\<close>: the non-numeric values, for which \<^verbatim>\<open>amount < 0\<close>
    raises \<^verbatim>\<open>TypeError\<close>.
\<close>

datatype pytype = TInt | TFloat | TBool | TStr | TNoneType

datatype number = PInt int | PFloat rat | PBool bool

datatype pyval = Num number | PStr string | PNone

datatype error = Exception string | TypeError

fun number_type :: "number \<Rightarrow> pytype" where
  "number_type (PInt i) = TInt"
| "number_type (PFloat x) = TFloat"
| "number_type (PBool b) = TBool"

fun type_of :: "pyval \<Rightarrow> pytype" where
  "type_of (Num n) = number_type n"
| "type_of (PStr s) = TStr"
| "type_of PNone = TNoneType"

text \<open>The integer an \<^verbatim>\<open>int\<close> or \<^verbatim>\<open>bool\<close> stands for in integer arithmetic.\<close>

fun int_val :: "number \<Rightarrow> int" where
  "int_val (PInt i) = i"
| "int_val (PBool b) = (if b then 1 else 0)"
| "int_val (PFloat x) = \<lfloor>x\<rfloor>"

text \<open>The numeric value of a number, as Python's mixed comparisons see it.\<close>

fun num_val :: "number \<Rightarrow> rat" where
  "num_val (PInt i) = of_int i"
| "num_val (PFloat x) = x"
| "num_val (PBool b) = (if b then 1 else 0)"

text \<open>\<^verbatim>\<open>a + b\<close>: a float operand makes the result a float, otherwise it is an int.\<close>

fun py_add :: "number \<Rightarrow> number \<Rightarrow> number" where
  "py_add (PFloat x) b = PFloat (x + num_val b)"
| "py_add a (PFloat y) = PFloat (num_val a + y)"
| "py_add a b = PInt (int_val a + int_val b)"

text \<open>\<^verbatim>\<open>a * b\<close>, with the same result types.\<close>

fun py_mul :: "number \<Rightarrow> number \<Rightarrow> number" where
  "py_mul (PFloat x) b = PFloat (x * num_val b)"
| "py_mul a (PFloat y) = PFloat (num_val a * y)"
| "py_mul a b = PInt (int_val a * int_val b)"

text \<open>\<^verbatim>\<open>abs(a)\<close>: an int for an int or a bool, a float for a float.\<close>

fun py_abs :: "number \<Rightarrow> number" where
  "py_abs (PInt i) = PInt \<bar>i\<bar>"
| "py_abs (PFloat x) = PFloat \<bar>x\<bar>"
| "py_abs (PBool b) = PInt (if b then 1 else 0)"

text \<open>\<^verbatim>\<open>-a\<close>, the unary minus.\<close>

fun py_neg :: "number \<Rightarrow> number" where
  "py_neg (PInt i) = PInt (- i)"
| "py_neg (PFloat x) = PFloat (- x)"
| "py_neg (PBool b) = PInt (- (if b then 1 else 0))"

text \<open>\<^verbatim>\<open>a < b\<close> and \<^verbatim>\<open>a > b\<close> on numbers compare the numeric values.\<close>

definition py_lt :: "number \<Rightarrow> number \<Rightarrow> bool" where
  "py_lt a b = (num_val a < num_val b)"

definition py_gt :: "number \<Rightarrow> number \<Rightarrow> bool" where
  "py_gt a b = (num_val b < num_val a)"

text \<open>
  \<^verbatim>\<open>round(x, 2)\<close>: an int (or a bool, as an int) is returned as an int; a float is
  rounded to the nearest multiple of 1/100, a tie going to the even neighbour.
\<close>

definition round_half_even :: "rat \<Rightarrow> int" where
  "round_half_even y =
     (let f = \<lfloor>y\<rfloor>; d = y - of_int f
      in if d < 1 / 2 then f else if 1 / 2 < d then f + 1
         else if even f then f else f + 1)"

fun py_round2 :: "number \<Rightarrow> number" where
  "py_round2 (PInt i) = PInt i"
| "py_round2 (PFloat x) = PFloat (of_int (round_half_even (x * 100)) / 100)"
| "py_round2 (PBool b) = PInt (if b then 1 else 0)"

text \<open>\<^verbatim>\<open>str(i)\<close> of an int: an optional minus sign and the decimal digits.\<close>

fun digit_char :: "nat \<Rightarrow> char" where
  "digit_char n = char_of (48 + n)"

fun str_nat :: "nat \<Rightarrow> string" where
  "str_nat n = (if n < 10 then [digit_char n] else str_nat (n div 10) @ [digit_char (n mod 10)])"

definition str_int :: "int \<Rightarrow> string" where
  "str_int i = (if i < 0 then CHR ''-'' # str_nat (nat (- i)) else str_nat (nat i))"

section \<open>The ledger: class \<^verbatim>\<open>Category\<close>\<close>

text \<open>
  An entry of the wallet is the dict \<^verbatim>\<open>{'amount': .., 'description': .., 'transfer': ..}\<close>.
  Only a value for which \<^verbatim>\<open>amount < 0\<close> evaluates (\<open>add_revenue\<close>) or whose type is
  \<^verbatim>\<open>int\<close> or \<^verbatim>\<open>float\<close> (\<open>add_expense\<close>) reaches an \<^verbatim>\<open>append\<close>, so a stored
  amount is a \<^typ>\<open>number\<close>.
\<close>

record Transaction =
  amount :: number
  description :: string
  transfer :: bool

record Category =
  category :: string
  wallet :: "Transaction list"

text \<open>\<^verbatim>\<open>Category(name)\<close>: the constructor, with an empty wallet.\<close>

definition new_Category :: "string \<Rightarrow> Category" where
  "new_Category name = \<lparr>category = name, wallet = []\<rparr>"

text \<open>\<^verbatim>\<open>is_number\<close>: \<^verbatim>\<open>type(value) == int or type(value) == float\<close>.\<close>

definition is_number :: "pyval \<Rightarrow> bool" where
  "is_number v = (type_of v = TInt \<or> type_of v = TFloat)"

text \<open>\<^verbatim>\<open>get_balance\<close>: the loop adds every stored amount to \<^verbatim>\<open>balance = 0\<close>.\<close>

definition get_balance :: "Category \<Rightarrow> number" where
  "get_balance c = foldl (\<lambda>balance action. py_add balance (amount action)) (PInt 0) (wallet c)"

text \<open>\<^verbatim>\<open>check_category_balance\<close>: False when \<^verbatim>\<open>abs(amount) > self.get_balance()\<close>.\<close>

definition check_category_balance :: "Category \<Rightarrow> number \<Rightarrow> bool" where
  "check_category_balance c a = (if py_gt (py_abs a) (get_balance c) then False else True)"

text \<open>
  \<^verbatim>\<open>add_revenue\<close>. The test is
  \<^verbatim>\<open>(type(amount) != int or type(amount) != float) and amount < 0\<close>; it raises
  \<^verbatim>\<open>Exception\<close> when it holds, and otherwise the entry is appended. The method returns
  \<^verbatim>\<open>None\<close>: the result is the category after the call, or the exception raised (the
  category is then as before). For a \<^verbatim>\<open>str\<close> or \<^verbatim>\<open>None\<close> the left conjunct holds
  (its type is not \<^verbatim>\<open>int\<close>), so \<^verbatim>\<open>amount < 0\<close> is evaluated, and comparing such a
  value with an int raises \<^verbatim>\<open>TypeError\<close>.
\<close>

definition revenue_message :: "Category \<Rightarrow> string" where
  "revenue_message c = ''Error: amount to deposit in '' @ category c @
     '' category balance has to be a positive number''"

fun add_revenue :: "Category \<Rightarrow> pyval \<Rightarrow> string \<Rightarrow> bool \<Rightarrow> error + Category" where
  "add_revenue c (Num n) descr trf =
     (if (type_of (Num n) \<noteq> TInt \<or> type_of (Num n) \<noteq> TFloat) \<and> py_lt n (PInt 0)
      then Inl (Exception (revenue_message c))
      else Inr (c\<lparr>wallet := wallet c @ [\<lparr>amount = n, description = descr, transfer = trf\<rparr>]\<rparr>))"
| "add_revenue c (PStr s) descr trf = Inl TypeError"
| "add_revenue c PNone descr trf = Inl TypeError"

text \<open>
  \<^verbatim>\<open>add_expense\<close>. A value that is not an int or a float (a bool, a \<^verbatim>\<open>str\<close>,
  \<^verbatim>\<open>None\<close>) fails \<^verbatim>\<open>is_number\<close> and raises \<^verbatim>\<open>Exception\<close>; an
  amount beyond the balance returns \<^verbatim>\<open>False\<close> and appends nothing; otherwise a
  positive amount is multiplied by \<open>-1\<close>, the entry is appended and the result is
  \<^verbatim>\<open>True\<close>.
\<close>

definition expense_message :: "Category \<Rightarrow> string" where
  "expense_message c = ''Error: amount to withdraw from '' @ category c @
     '' category balance has to be a negative number''"

fun add_expense :: "Category \<Rightarrow> pyval \<Rightarrow> string \<Rightarrow> bool \<Rightarrow> error + (bool \<times> Category)" where
  "add_expense c (Num n) descr trf =
     (if \<not> is_number (Num n) then Inl (Exception (expense_message c))
      else if \<not> check_category_balance c n then Inr (False, c)
      else let a = (if py_gt n (PInt 0) then py_mul n (PInt (- 1)) else n)
           in Inr (True, c\<lparr>wallet := wallet c @
                      [\<lparr>amount = a, description = descr, transfer = trf\<rparr>]\<rparr>))"
| "add_expense c (PStr s) descr trf = Inl (Exception (expense_message c))"
| "add_expense c PNone descr trf = Inl (Exception (expense_message c))"

text \<open>
  \<^verbatim>\<open>get_expense_total\<close>: from \<^verbatim>\<open>total = 0.00\<close>, every entry that is not a transfer and
  whose amount is negative adds \<^verbatim>\<open>amount * -1\<close>; the total is rounded to two decimals,
  and an int total would be returned as a string with \<^verbatim>\<open>".00"\<close> appended.
\<close>

definition expense_step :: "number \<Rightarrow> Transaction \<Rightarrow> number" where
  "expense_step tot action =
     (if transfer action then tot
      else if py_lt (amount action) (PInt 0)
           then py_add tot (py_mul (amount action) (PInt (- 1)))
           else tot)"

definition get_expense_total :: "Category \<Rightarrow> pyval" where
  "get_expense_total c =
     (let tot = py_round2 (foldl expense_step (PFloat 0) (wallet c))
      in if number_type tot = TInt then PStr (str_int (int_val tot) @ ''.00'')
         else Num tot)"

text \<open>
  \<^verbatim>\<open>transfer_money\<close> works on two objects, which may be the same one. The objects
  live in a store, from object identities to object states; the target argument is a
  reference to a \<^verbatim>\<open>Category\<close> object or some other value. The result is the value
  returned or the exception raised, with the store as the call leaves it: an exception
  raised by the credit of the target leaves the debit of the source in place.
\<close>

type_synonym store = "nat \<Rightarrow> Category"

datatype target = CategoryRef nat | NotCategory pyval

definition transfer_message :: "Category \<Rightarrow> string" where
  "transfer_message c = ''Error: amount to send money from '' @ category c @
     '' category balance has to be a number''"

definition transfer_money :: "store \<Rightarrow> nat \<Rightarrow> pyval \<Rightarrow> target \<Rightarrow> (error + bool) \<times> store" where
  "transfer_money s src amt tgt =
     (if \<not> is_number amt then (Inl (Exception (transfer_message (s src))), s)
      else case tgt of
        NotCategory v \<Rightarrow> (Inl (Exception ''Error: Category does not exist''), s)
      | CategoryRef t \<Rightarrow>
          (case add_expense (s src) amt (''Send money to '' @ category (s t)) True of
             Inl e \<Rightarrow> (Inl e, s)
           | Inr (sufficient_money, c1) \<Rightarrow>
               let s1 = s(src := c1)
               in if \<not> sufficient_money then (Inr False, s1)
                  else (case add_revenue (s1 t) amt
                               (''Send money from '' @ category (s1 src)) True of
                          Inl e \<Rightarrow> (Inl e, s1)
                        | Inr c2 \<Rightarrow> (Inr True, s1(t := c2)))))"

section \<open>Sequences of ledger operations\<close>

text \<open>
  A caller's operation on the objects of a store, and the store it leaves, whether the
  call returned or raised.
\<close>

datatype op =
    AddRevenue nat pyval string bool
  | AddExpense nat pyval string bool
  | TransferMoney nat pyval target

fun step :: "store \<Rightarrow> op \<Rightarrow> store" where
  "step s (AddRevenue c a d t) =
     (case add_revenue (s c) a d t of Inl e \<Rightarrow> s | Inr c' \<Rightarrow> s(c := c'))"
| "step s (AddExpense c a d t) =
     (case add_expense (s c) a d t of Inl e \<Rightarrow> s | Inr (ok, c') \<Rightarrow> s(c := c'))"
| "step s (TransferMoney c a tgt) = snd (transfer_money s c a tgt)"

definition run :: "store \<Rightarrow> op list \<Rightarrow> store" where
  "run s ops = foldl step s ops"

section \<open>The registry: \<^verbatim>\<open>OperationWindow._add_category\<close>\<close>












section \<open>The seed data: \<^verbatim>\<open>fill_data.get_fill_data\<close>\<close>

text \<open>
  The six objects are the identities 0 to 5 of the store, in the order of their creation
  (Income, Food, Clothing, Auto, Grocery, Savings); the calls are made in the order of the
  source, and the function returns the objects \<^verbatim>\<open>[income, food, clothing, grocery]\<close>.
\<close>

definition fill_names :: "string list" where
  "fill_names = [''Income'', ''Food'', ''Clothing'', ''Auto'', ''Grocery'', ''Savings'']"

definition fill_store :: store where
  "fill_store i = new_Category (if i < length fill_names then fill_names ! i else [])"

definition fill_ops :: "op list" where
  "fill_ops =
     [AddRevenue 0 (Num (PInt 5000)) ''Salary from FIT'' False,
      AddExpense 0 (Num (PInt 488)) ''Rent'' False,
      TransferMoney 0 (Num (PInt 1000)) (CategoryRef 1),
      TransferMoney 0 (Num (PInt 500)) (CategoryRef 2),
      TransferMoney 0 (Num (PInt 200)) (CategoryRef 3),
      TransferMoney 0 (Num (PInt 500)) (CategoryRef 5),
      AddExpense 1 (Num (PFloat (1589 / 100))) ''Mangestu Restaurant'' False,
      AddExpense 2 (Num (PFloat (2555 / 100))) ''H&M'' False,
      AddExpense 2 (Num (PInt 100)) ''Macy's'' False,
      AddRevenue 3 (Num (PInt 1000)) ''Sold my bike'' False,
      AddExpense 3 (Num (PInt 15)) ''Tyre Change'' False,
      TransferMoney 1 (Num (PInt 50)) (CategoryRef 4),
      AddExpense 4 (Num (PFloat (3072 / 100))) ''Chili's'' False,
      AddExpense 4 (Num (PFloat (1015 / 100))) ''Walmart'' False]"

definition get_fill_data :: "Category list" where
  "get_fill_data = map (run fill_store fill_ops) [0, 1, 2, 4]"

text \<open>
  The category Grocery as the transfer of 50 from Food leaves it, before its two expenses.
\<close>

definition grocery_funded :: Category where
  "grocery_funded = \<lparr>category = ''Grocery'', wallet =
     [\<lparr>amount = PInt 50, description = ''Send money from Food'', transfer = True\<rparr>]\<rparr>"

text \<open>
  The category Food as the transfer of 1000 from Income and its first expense leave it.
\<close>

definition food_fed :: Category where
  "food_fed = \<lparr>category = ''Food'', wallet =
     [\<lparr>amount = PInt 1000, description = ''Send money from Income'', transfer = True\<rparr>,
      \<lparr>amount = PFloat (- (1589 / 100)), description = ''Mangestu Restaurant'',
        transfer = False\<rparr>]\<rparr>"

section \<open>Auxiliary notions\<close>


section \<open>Arithmetic of the ledger\<close>

lemma num_val_py_add: "num_val (py_add a b) = num_val a + num_val b"
  by (cases a; cases b) simp_all

lemma num_val_py_abs: "num_val (py_abs n) = \<bar>num_val n\<bar>"
  by (cases n) auto

lemma num_val_foldl_add:
  "num_val (foldl (\<lambda>balance action. py_add balance (amount action)) b xs) =
     num_val b + sum_list (map (\<lambda>action. num_val (amount action)) xs)"
  by (induction xs arbitrary: b) (simp_all add: num_val_py_add)

lemma num_val_get_balance:
  "num_val (get_balance c) = sum_list (map (\<lambda>action. num_val (amount action)) (wallet c))"
  by (simp add: get_balance_def num_val_foldl_add)

lemma get_balance_append:
  "get_balance (c\<lparr>wallet := wallet c @ [t]\<rparr>) = py_add (get_balance c) (amount t)"
  by (simp add: get_balance_def)


lemma py_neg_abs:
  "is_number (Num n) \<Longrightarrow>
     (if py_gt n (PInt 0) then py_mul n (PInt (- 1)) else n) = py_neg (py_abs n)"
  by (cases n) (auto simp: py_gt_def is_number_def)

section \<open>What a call that returns has done\<close>

lemma add_revenue_Inr:
  "add_revenue c a d t = Inr c' \<Longrightarrow>
     \<exists>n. a = Num n \<and> 0 \<le> num_val n \<and>
         c' = c\<lparr>wallet := wallet c @ [\<lparr>amount = n, description = d, transfer = t\<rparr>]\<rparr>"
  by (cases a) (auto simp: py_lt_def split: if_splits)

lemma add_expense_Inr:
  "add_expense c a d t = Inr (ok, c') \<Longrightarrow>
     \<exists>n. a = Num n \<and> is_number a \<and>
       (if \<bar>num_val n\<bar> > num_val (get_balance c) then \<not> ok \<and> c' = c
        else ok \<and> c' = c\<lparr>wallet := wallet c @
               [\<lparr>amount = (if py_gt n (PInt 0) then py_mul n (PInt (- 1)) else n),
                 description = d, transfer = t\<rparr>]\<rparr>)"
  by (cases a)
     (auto simp: check_category_balance_def py_gt_def num_val_py_abs Let_def split: if_splits)

text \<open>The three operations on a numeric amount, in closed form.\<close>

lemma is_number_Num: "is_number a \<Longrightarrow> \<exists>n. a = Num n"
  by (cases a) (simp_all add: is_number_def)

lemma add_revenue_Num:
  "add_revenue c (Num n) d t =
     (if py_lt n (PInt 0) then Inl (Exception (revenue_message c))
      else Inr (c\<lparr>wallet := wallet c @ [\<lparr>amount = n, description = d, transfer = t\<rparr>]\<rparr>))"
  by (cases n) simp_all

lemma add_expense_Num:
  "is_number (Num n) \<Longrightarrow> add_expense c (Num n) d t =
     (if py_gt (py_abs n) (get_balance c) then Inr (False, c)
      else Inr (True, c\<lparr>wallet := wallet c @
             [\<lparr>amount = py_neg (py_abs n), description = d, transfer = t\<rparr>]\<rparr>))"
  using py_neg_abs [of n]
  by (simp add: check_category_balance_def Let_def del: py_mul.simps)

lemma transfer_money_Num:
  assumes "is_number (Num n)"
  shows "transfer_money s src (Num n) (CategoryRef t) =
     (if py_gt (py_abs n) (get_balance (s src)) then (Inr False, s)
      else let s1 = s(src := (s src)\<lparr>wallet := wallet (s src) @
                  [\<lparr>amount = py_neg (py_abs n),
                    description = ''Send money to '' @ category (s t), transfer = True\<rparr>]\<rparr>)
           in if py_lt n (PInt 0) then (Inl (Exception (revenue_message (s1 t))), s1)
              else (Inr True, s1(t := (s1 t)\<lparr>wallet := wallet (s1 t) @
                  [\<lparr>amount = n, description = ''Send money from '' @ category (s src),
                    transfer = True\<rparr>]\<rparr>)))"
  unfolding transfer_money_def add_expense_Num [OF assms] add_revenue_Num
  using assms by (simp add: Let_def)

section \<open>The balance never goes negative\<close>









section \<open>The policy of \<open>add_expense\<close>\<close>



section \<open>Negative revenue\<close>

text \<open>
  C4 (as the code has it). For every negative numeric amount, \<open>add_revenue\<close> rejects
  it: the call raises \<^verbatim>\<open>Exception\<close> with the message that the amount has to be a
  positive number, and nothing is appended.
\<close>

theorem add_revenue_negative_raises:
  "py_lt n (PInt 0) \<Longrightarrow> add_revenue c (Num n) d t = Inl (Exception (revenue_message c))"
  by (cases n) auto

theorem add_revenue_negative_raises_witness:
  "py_lt (PInt (- 5)) (PInt 0) \<and>
   add_revenue (new_Category ''Income'') (Num (PInt (- 5))) ''Refund'' False =
     Inl (Exception
       ''Error: amount to deposit in Income category balance has to be a positive number'')"
  using add_revenue_negative_raises [of "PInt (- 5)" "new_Category ''Income''" "''Refund''" False]
  by (simp add: py_lt_def revenue_message_def new_Category_def)

text \<open>
  The claim that a negative amount passes the validation fails at \<open>-5\<close>: no entry with
  amount \<open>-5\<close> is appended to the new category Income, the call raises.
\<close>

theorem add_revenue_negative_counterexample:
  "add_revenue (new_Category ''Income'') (Num (PInt (- 5))) ''Refund'' False \<noteq>
     Inr ((new_Category ''Income'')\<lparr>wallet :=
        [\<lparr>amount = PInt (- 5), description = ''Refund'', transfer = False\<rparr>]\<rparr>) \<and>
   add_revenue (new_Category ''Income'') (Num (PInt (- 5))) ''Refund'' False =
     Inl (Exception
       ''Error: amount to deposit in Income category balance has to be a positive number'')"
  by (simp add: py_lt_def revenue_message_def new_Category_def)


section \<open>The Grocery scenario of the seed data\<close>

text \<open>
  C5 (as the code has it). For a category whose only entry is an incoming transfer credit
  of 50, the calls \<^verbatim>\<open>add_expense(30.72, ..)\<close> and \<^verbatim>\<open>add_expense(10.15, ..)\<close> both
  succeed; afterwards \<open>get_expense_total\<close> returns 40.87 and \<open>get_balance\<close> returns
  9.13 (50 - 30.72 - 10.15), not 9.28.
\<close>

theorem grocery_scenario:
  assumes "wallet c = [\<lparr>amount = a, description = d, transfer = True\<rparr>]"
    and "num_val a = 50"
  shows "\<exists>c1 c2.
     add_expense c (Num (PFloat (3072 / 100))) d1 False = Inr (True, c1) \<and>
     add_expense c1 (Num (PFloat (1015 / 100))) d2 False = Inr (True, c2) \<and>
     get_expense_total c2 = Num (PFloat (4087 / 100)) \<and>
     get_balance c2 = PFloat (913 / 100)"
proof -
  let ?c1 = "c\<lparr>wallet := wallet c @
     [\<lparr>amount = PFloat (- (3072 / 100)), description = d1, transfer = False\<rparr>]\<rparr>"
  let ?c2 = "?c1\<lparr>wallet := wallet ?c1 @
     [\<lparr>amount = PFloat (- (1015 / 100)), description = d2, transfer = False\<rparr>]\<rparr>"
  have b0: "num_val (get_balance c) = 50"
    using assms by (simp add: num_val_get_balance)
  have e1: "add_expense c (Num (PFloat (3072 / 100))) d1 False = Inr (True, ?c1)"
    using b0 by (simp add: is_number_def check_category_balance_def py_gt_def)
  have b1: "num_val (get_balance ?c1) = 1928 / 100"
    using assms by (simp add: num_val_get_balance)
  have e2: "add_expense ?c1 (Num (PFloat (1015 / 100))) d2 False = Inr (True, ?c2)"
    using b1 by (simp add: is_number_def check_category_balance_def py_gt_def)
  have t: "get_expense_total ?c2 = Num (PFloat (4087 / 100))"
    using assms by (simp add: get_expense_total_def expense_step_def py_lt_def round_half_even_def)
  have "get_balance ?c2 = PFloat (num_val a - 3072 / 100 - 1015 / 100)"
    using assms by (cases a) (auto simp: get_balance_def split: if_splits)
  with assms have b2: "get_balance ?c2 = PFloat (913 / 100)" by simp
  from e1 e2 t b2 show ?thesis by blast
qed

theorem grocery_scenario_witness:
  "wallet grocery_funded =
     [\<lparr>amount = PInt 50, description = ''Send money from Food'', transfer = True\<rparr>] \<and>
   num_val (PInt 50) = 50 \<and>
   (\<exists>c1 c2.
     add_expense grocery_funded (Num (PFloat (3072 / 100))) ''Chili's'' False = Inr (True, c1) \<and>
     add_expense c1 (Num (PFloat (1015 / 100))) ''Walmart'' False = Inr (True, c2) \<and>
     get_expense_total c2 = Num (PFloat (4087 / 100)) \<and>
     get_balance c2 = PFloat (913 / 100))"
  using grocery_scenario [of grocery_funded "PInt 50" "''Send money from Food''"
      "''Chili's''" "''Walmart''"]
  by (simp add: grocery_funded_def)

text \<open>
  On the category Grocery of the seed data both expenses are accepted and the balance is
  9.13; it is not the 9.28 of the claim.
\<close>

theorem grocery_scenario_counterexample:
  "add_expense grocery_funded (Num (PFloat (3072 / 100))) ''Chili's'' False =
     Inr (True, grocery_funded\<lparr>wallet := wallet grocery_funded @
       [\<lparr>amount = PFloat (- (3072 / 100)), description = ''Chili's'', transfer = False\<rparr>]\<rparr>) \<and>
   add_expense (grocery_funded\<lparr>wallet := wallet grocery_funded @
       [\<lparr>amount = PFloat (- (3072 / 100)), description = ''Chili's'', transfer = False\<rparr>]\<rparr>)
       (Num (PFloat (1015 / 100))) ''Walmart'' False =
     Inr (True, grocery_funded\<lparr>wallet := wallet grocery_funded @
       [\<lparr>amount = PFloat (- (3072 / 100)), description = ''Chili's'', transfer = False\<rparr>,
        \<lparr>amount = PFloat (- (1015 / 100)), description = ''Walmart'', transfer = False\<rparr>]\<rparr>) \<and>
   get_balance (grocery_funded\<lparr>wallet := wallet grocery_funded @
       [\<lparr>amount = PFloat (- (3072 / 100)), description = ''Chili's'', transfer = False\<rparr>,
        \<lparr>amount = PFloat (- (1015 / 100)), description = ''Walmart'', transfer = False\<rparr>]\<rparr>)
     = PFloat (913 / 100) \<and>
   num_val (get_balance (grocery_funded\<lparr>wallet := wallet grocery_funded @
       [\<lparr>amount = PFloat (- (3072 / 100)), description = ''Chili's'', transfer = False\<rparr>,
        \<lparr>amount = PFloat (- (1015 / 100)), description = ''Walmart'', transfer = False\<rparr>]\<rparr>))
     \<noteq> 928 / 100"
  by (simp add: grocery_funded_def get_balance_def check_category_balance_def py_gt_def
      is_number_def)

section \<open>What \<open>add_revenue\<close> stores\<close>




section \<open>Creating a category\<close>











section \<open>Transfers\<close>

text \<open>The seed data after its first two calls: Income holds 4512, Food is empty.\<close>

lemma income_funded:
  "run fill_store (take 2 fill_ops) 0 = \<lparr>category = ''Income'', wallet =
     [\<lparr>amount = PInt 5000, description = ''Salary from FIT'', transfer = False\<rparr>,
      \<lparr>amount = PInt (- 488), description = ''Rent'', transfer = False\<rparr>]\<rparr>"
  by (simp add: run_def fill_ops_def fill_store_def fill_names_def new_Category_def
      is_number_def check_category_balance_def get_balance_def py_gt_def py_lt_def)

lemma food_empty: "run fill_store (take 2 fill_ops) (Suc 0) = \<lparr>category = ''Food'', wallet = []\<rparr>"
  by (simp add: run_def fill_ops_def fill_store_def fill_names_def new_Category_def
      is_number_def check_category_balance_def get_balance_def py_gt_def py_lt_def)

lemma transfer_money_False:
  "transfer_money s src amt tgt = (Inr False, s') \<Longrightarrow> s' = s"
  unfolding transfer_money_def
  by (auto simp: Let_def split: if_splits target.splits sum.splits prod.splits
      dest!: add_expense_Inr)

lemma transfer_money_True:
  assumes "transfer_money s src amt tgt = (Inr True, s')"
  shows "\<exists>t n. tgt = CategoryRef t \<and> amt = Num n \<and>
     (let s1 = s(src := (s src)\<lparr>wallet := wallet (s src) @
                  [\<lparr>amount = py_neg (py_abs n),
                    description = ''Send money to '' @ category (s t), transfer = True\<rparr>]\<rparr>)
      in s' = s1(t := (s1 t)\<lparr>wallet := wallet (s1 t) @
                  [\<lparr>amount = n,
                    description = ''Send money from '' @ category (s src),
                    transfer = True\<rparr>]\<rparr>))"
proof -
  from assms have num: "is_number amt"
    by (auto simp: transfer_money_def split: if_splits)
  then obtain n where n: "amt = Num n" using is_number_Num by blast
  from assms num obtain t where t: "tgt = CategoryRef t"
    by (cases tgt) (auto simp: transfer_money_def)
  from assms num show ?thesis
    unfolding n t by (auto simp: transfer_money_Num Let_def split: if_splits)
qed

text \<open>
  C3. If \<open>transfer_money\<close> returns \<^verbatim>\<open>False\<close>, which it does whenever the amount is
  numeric and \<^verbatim>\<open>abs(amount)\<close> exceeds the balance of the source, the whole store is as
  before the call: neither the source's nor the target's transaction list has changed.
  If it returns \<^verbatim>\<open>True\<close>, the debit \<^verbatim>\<open>-abs(amount)\<close> has been appended to the source
  first, and the credit has been appended to the target as found in the store that
  already holds the debit (for a transfer to the source itself the wallet ends with the
  debit followed by the credit).
\<close>

theorem transfer_money_atomic:
  "(transfer_money s src amt tgt = (Inr False, s') \<longrightarrow> s' = s) \<and>
   (is_number (Num n) \<and> py_gt (py_abs n) (get_balance (s src)) \<longrightarrow>
      transfer_money s src (Num n) (CategoryRef t) = (Inr False, s)) \<and>
   (transfer_money s src amt tgt = (Inr True, s') \<longrightarrow>
      (\<exists>t n. tgt = CategoryRef t \<and> amt = Num n \<and>
        (let s1 = s(src := (s src)\<lparr>wallet := wallet (s src) @
                    [\<lparr>amount = py_neg (py_abs n),
                      description = ''Send money to '' @ category (s t), transfer = True\<rparr>]\<rparr>)
         in s' = s1(t := (s1 t)\<lparr>wallet := wallet (s1 t) @
                    [\<lparr>amount = n,
                      description = ''Send money from '' @ category (s src),
                      transfer = True\<rparr>]\<rparr>))))"
proof (intro conjI impI)
  assume "transfer_money s src amt tgt = (Inr False, s')"
  then show "s' = s" by (rule transfer_money_False)
next
  assume "is_number (Num n) \<and> py_gt (py_abs n) (get_balance (s src))"
  then show "transfer_money s src (Num n) (CategoryRef t) = (Inr False, s)"
    by (simp add: transfer_money_Num)
next
  assume "transfer_money s src amt tgt = (Inr True, s')"
  then show "\<exists>t n. tgt = CategoryRef t \<and> amt = Num n \<and>
        (let s1 = s(src := (s src)\<lparr>wallet := wallet (s src) @
                    [\<lparr>amount = py_neg (py_abs n),
                      description = ''Send money to '' @ category (s t), transfer = True\<rparr>]\<rparr>)
         in s' = s1(t := (s1 t)\<lparr>wallet := wallet (s1 t) @
                    [\<lparr>amount = n,
                      description = ''Send money from '' @ category (s src),
                      transfer = True\<rparr>]\<rparr>))"
    by (rule transfer_money_True)
qed

text \<open>
  Instances: a transfer of 5000 from Income (4512) to Food is refused and leaves the store
  as it was; a transfer of 1000 from Income to itself appends the debit and then the credit.
\<close>

theorem transfer_money_atomic_witness:
  "is_number (Num (PInt 5000)) \<and>
   py_gt (py_abs (PInt 5000)) (get_balance (run fill_store (take 2 fill_ops) 0)) \<and>
   transfer_money (run fill_store (take 2 fill_ops)) 0 (Num (PInt 5000)) (CategoryRef 1) =
     (Inr False, run fill_store (take 2 fill_ops)) \<and>
   fst (transfer_money (run fill_store (take 2 fill_ops)) 0 (Num (PInt 1000)) (CategoryRef 0)) =
     Inr True \<and>
   wallet (snd (transfer_money (run fill_store (take 2 fill_ops)) 0 (Num (PInt 1000))
       (CategoryRef 0)) 0) =
     [\<lparr>amount = PInt 5000, description = ''Salary from FIT'', transfer = False\<rparr>,
      \<lparr>amount = PInt (- 488), description = ''Rent'', transfer = False\<rparr>,
      \<lparr>amount = PInt (- 1000), description = ''Send money to Income'', transfer = True\<rparr>,
      \<lparr>amount = PInt 1000, description = ''Send money from Income'', transfer = True\<rparr>]"
proof -
  have n: "is_number (Num (PInt 5000))" by (simp add: is_number_def)
  have g: "py_gt (py_abs (PInt 5000)) (get_balance (run fill_store (take 2 fill_ops) 0))"
    by (simp add: income_funded get_balance_def py_gt_def)
  have m: "is_number (Num (PInt 1000))" by (simp add: is_number_def)
  have ok: "transfer_money (run fill_store (take 2 fill_ops)) 0 (Num (PInt 1000)) (CategoryRef 0) =
     (Inr True, snd (transfer_money (run fill_store (take 2 fill_ops)) 0 (Num (PInt 1000))
       (CategoryRef 0)))"
    by (simp add: transfer_money_Num [OF m] income_funded get_balance_def py_gt_def py_lt_def
        Let_def)
  from n g ok show ?thesis
    using transfer_money_atomic [of "run fill_store (take 2 fill_ops)" 0 "Num (PInt 5000)"
        "CategoryRef 1" "run fill_store (take 2 fill_ops)" "PInt 5000" 1]
      transfer_money_atomic [of "run fill_store (take 2 fill_ops)" 0 "Num (PInt 1000)"
        "CategoryRef 0" "snd (transfer_money (run fill_store (take 2 fill_ops)) 0
           (Num (PInt 1000)) (CategoryRef 0))" "PInt 1000" 0]
    by (auto simp: Let_def income_funded)
qed

text \<open>
  C9. For a source whose balance is 4512 and a target with no transactions,
  \<^verbatim>\<open>transfer_money(1000, target)\<close> returns \<^verbatim>\<open>True\<close>; the source's balance becomes 3512
  and the target's 1000, and exactly one entry, flagged as a transfer, has been appended
  to each of the two wallets.
\<close>

theorem transfer_scenario:
  assumes "num_val (get_balance (s a)) = 4512" and "wallet (s b) = []"
  shows "\<exists>s'. transfer_money s a (Num (PInt 1000)) (CategoryRef b) = (Inr True, s') \<and>
     num_val (get_balance (s' a)) = 3512 \<and> num_val (get_balance (s' b)) = 1000 \<and>
     wallet (s' a) = wallet (s a) @
       [\<lparr>amount = PInt (- 1000), description = ''Send money to '' @ category (s b),
         transfer = True\<rparr>] \<and>
     wallet (s' b) =
       [\<lparr>amount = PInt 1000, description = ''Send money from '' @ category (s a),
         transfer = True\<rparr>]"
proof -
  from assms have ne: "a \<noteq> b" by (auto simp: get_balance_def)
  have m: "is_number (Num (PInt 1000))" by (simp add: is_number_def)
  let ?s1 = "s(a := (s a)\<lparr>wallet := wallet (s a) @
       [\<lparr>amount = PInt (- 1000), description = ''Send money to '' @ category (s b),
         transfer = True\<rparr>]\<rparr>)"
  let ?s' = "?s1(b := (?s1 b)\<lparr>wallet := wallet (?s1 b) @
       [\<lparr>amount = PInt 1000, description = ''Send money from '' @ category (s a),
         transfer = True\<rparr>]\<rparr>)"
  from assms have "transfer_money s a (Num (PInt 1000)) (CategoryRef b) = (Inr True, ?s')"
    by (simp add: transfer_money_Num [OF m] py_gt_def py_lt_def Let_def)
  moreover from assms ne have "num_val (get_balance (?s' a)) = 3512"
    by (simp add: get_balance_append num_val_py_add)
  moreover from assms ne have "num_val (get_balance (?s' b)) = 1000"
    by (simp add: get_balance_def)
  moreover from assms ne have "wallet (?s' a) = wallet (s a) @
       [\<lparr>amount = PInt (- 1000), description = ''Send money to '' @ category (s b),
         transfer = True\<rparr>]"
    by simp
  moreover from assms ne have "wallet (?s' b) =
       [\<lparr>amount = PInt 1000, description = ''Send money from '' @ category (s a),
         transfer = True\<rparr>]"
    by simp
  ultimately show ?thesis by blast
qed

text \<open>The instance of the seed data: Income, after the salary and the rent, and Food.\<close>

theorem transfer_scenario_witness:
  "num_val (get_balance (run fill_store (take 2 fill_ops) 0)) = 4512 \<and>
   wallet (run fill_store (take 2 fill_ops) (Suc 0)) = [] \<and>
   (\<exists>s'. transfer_money (run fill_store (take 2 fill_ops)) 0 (Num (PInt 1000))
         (CategoryRef (Suc 0)) = (Inr True, s') \<and>
     num_val (get_balance (s' 0)) = 3512 \<and> num_val (get_balance (s' (Suc 0))) = 1000 \<and>
     wallet (s' 0) =
       [\<lparr>amount = PInt 5000, description = ''Salary from FIT'', transfer = False\<rparr>,
        \<lparr>amount = PInt (- 488), description = ''Rent'', transfer = False\<rparr>,
        \<lparr>amount = PInt (- 1000), description = ''Send money to Food'', transfer = True\<rparr>] \<and>
     wallet (s' (Suc 0)) =
       [\<lparr>amount = PInt 1000, description = ''Send money from Income'', transfer = True\<rparr>])"
  using transfer_scenario [of "run fill_store (take 2 fill_ops)" 0 "Suc 0"]
  by (simp add: income_funded food_empty get_balance_def)

section \<open>Which calls return and which raise\<close>


lemma add_expense_returns_iff:
  "(\<exists>r. add_expense c a d t = Inr r) \<longleftrightarrow> is_number a"
proof (cases "is_number a")
  case True
  then obtain n where "a = Num n" using is_number_Num by blast
  with True show ?thesis by (auto simp: add_expense_Num simp del: add_expense.simps)
next
  case False
  then show ?thesis by (cases a) simp_all
qed





section \<open>The expense total\<close>

lemma get_expense_total_append:
  "get_expense_total (c\<lparr>wallet := wallet c @ [r]\<rparr>) =
     (let tot = py_round2 (expense_step (foldl expense_step (PFloat 0) (wallet c)) r)
      in if number_type tot = TInt then PStr (str_int (int_val tot) @ ''.00'') else Num tot)"
  by (simp add: get_expense_total_def)

lemma get_expense_total_skip:
  "transfer r \<or> \<not> py_lt (amount r) (PInt 0) \<Longrightarrow>
     get_expense_total (c\<lparr>wallet := wallet c @ [r]\<rparr>) = get_expense_total c"
  by (auto simp: get_expense_total_append get_expense_total_def expense_step_def)

lemma add_revenue_expense_total:
  "add_revenue c a d t = Inr c' \<Longrightarrow> get_expense_total c' = get_expense_total c"
  by (auto dest!: add_revenue_Inr simp: get_expense_total_skip py_lt_def)

lemma transfer_money_expense_total:
  "get_expense_total (snd (transfer_money s src amt tgt) i) = get_expense_total (s i)"
proof (cases "is_number amt")
  case False
  then show ?thesis by (simp add: transfer_money_def)
next
  case num: True
  then obtain n where n: "amt = Num n" using is_number_Num by blast
  show ?thesis
  proof (cases tgt)
    case (NotCategory v)
    with num show ?thesis by (simp add: transfer_money_def)
  next
    case (CategoryRef t)
    with num n show ?thesis
      by (simp add: transfer_money_Num Let_def get_expense_total_skip)
  qed
qed

lemma add_expense_expense_total:
  assumes "add_expense c a d t = Inr (ok, c')"
    and "get_expense_total c' \<noteq> get_expense_total c"
  shows "ok \<and> (\<exists>r. wallet c' = wallet c @ [r] \<and> \<not> transfer r \<and> py_lt (amount r) (PInt 0))"
proof -
  from assms(1) have num: "is_number a"
    using add_expense_returns_iff by blast
  then obtain n where n: "a = Num n" using is_number_Num by blast
  show ?thesis
  proof (cases "py_gt (py_abs n) (get_balance c)")
    case True
    with assms num n show ?thesis by (simp add: add_expense_Num del: add_expense.simps)
  next
    case False
    let ?r = "\<lparr>amount = py_neg (py_abs n), description = d, transfer = t\<rparr>"
    from False assms(1) num n have c': "c' = c\<lparr>wallet := wallet c @ [?r]\<rparr>" and ok: ok
      by (simp_all add: add_expense_Num del: add_expense.simps)
    from assms(2) c' have "\<not> (transfer ?r \<or> \<not> py_lt (amount ?r) (PInt 0))"
      using get_expense_total_skip [of ?r c] by auto
    with c' ok show ?thesis by auto
  qed
qed

text \<open>
  C10. The expense total of a category is unchanged by every \<open>add_revenue\<close> call that
  returns, and the expense total of every object of the store (source, target or other)
  is unchanged by every \<open>transfer_money\<close> call; an appended entry that is flagged as a
  transfer or whose amount is not negative does not contribute. When an \<open>add_expense\<close>
  call changes the expense total, it has returned \<^verbatim>\<open>True\<close> and has appended an entry
  that is not a transfer and whose stored amount is strictly negative.
\<close>

theorem expense_total_frame:
  "(add_revenue c a d t = Inr c' \<longrightarrow> get_expense_total c' = get_expense_total c) \<and>
   get_expense_total (snd (transfer_money s src amt tgt) i) = get_expense_total (s i) \<and>
   (transfer r \<or> \<not> py_lt (amount r) (PInt 0) \<longrightarrow>
      get_expense_total (c\<lparr>wallet := wallet c @ [r]\<rparr>) = get_expense_total c) \<and>
   (add_expense c a d t = Inr (ok, c') \<and> get_expense_total c' \<noteq> get_expense_total c \<longrightarrow>
      ok \<and> (\<exists>r. wallet c' = wallet c @ [r] \<and> \<not> transfer r \<and> py_lt (amount r) (PInt 0)))"
  using add_revenue_expense_total transfer_money_expense_total get_expense_total_skip
    add_expense_expense_total
  by (intro conjI impI) blast+

text \<open>
  On the category Food with one expense of 15.89: a revenue of 20 and a transfer of 50 to
  Grocery leave the expense totals at 15.89 (Food) and 0.0 (Grocery); an expense of 10
  moves Food's to 25.89.
\<close>

theorem expense_total_frame_witness:
  "get_expense_total food_fed = Num (PFloat (1589 / 100)) \<and>
   add_revenue food_fed (Num (PInt 20)) ''Gift'' False =
     Inr (food_fed\<lparr>wallet := wallet food_fed @
       [\<lparr>amount = PInt 20, description = ''Gift'', transfer = False\<rparr>]\<rparr>) \<and>
   get_expense_total (food_fed\<lparr>wallet := wallet food_fed @
       [\<lparr>amount = PInt 20, description = ''Gift'', transfer = False\<rparr>]\<rparr>) =
     Num (PFloat (1589 / 100)) \<and>
   get_expense_total (snd (transfer_money (fill_store(1 := food_fed)) 1 (Num (PInt 50))
       (CategoryRef 4)) 1) = Num (PFloat (1589 / 100)) \<and>
   get_expense_total (snd (transfer_money (fill_store(1 := food_fed)) 1 (Num (PInt 50))
       (CategoryRef 4)) 4) = Num (PFloat 0) \<and>
   add_expense food_fed (Num (PInt 10)) ''Tea'' False =
     Inr (True, food_fed\<lparr>wallet := wallet food_fed @
       [\<lparr>amount = PInt (- 10), description = ''Tea'', transfer = False\<rparr>]\<rparr>) \<and>
   get_expense_total (food_fed\<lparr>wallet := wallet food_fed @
       [\<lparr>amount = PInt (- 10), description = ''Tea'', transfer = False\<rparr>]\<rparr>) =
     Num (PFloat (2589 / 100))"
proof -
  have e: "get_expense_total food_fed = Num (PFloat (1589 / 100))"
    by (simp add: food_fed_def get_expense_total_def expense_step_def py_lt_def
        round_half_even_def)
  have g: "get_expense_total (fill_store 4) = Num (PFloat 0)"
    by (simp add: fill_store_def new_Category_def get_expense_total_def round_half_even_def)
  have r: "add_revenue food_fed (Num (PInt 20)) ''Gift'' False =
     Inr (food_fed\<lparr>wallet := wallet food_fed @
       [\<lparr>amount = PInt 20, description = ''Gift'', transfer = False\<rparr>]\<rparr>)"
    by (simp add: py_lt_def)
  have x: "add_expense food_fed (Num (PInt 10)) ''Tea'' False =
     Inr (True, food_fed\<lparr>wallet := wallet food_fed @
       [\<lparr>amount = PInt (- 10), description = ''Tea'', transfer = False\<rparr>]\<rparr>)"
    by (simp add: food_fed_def is_number_def check_category_balance_def get_balance_def
        py_gt_def)
  have t: "get_expense_total (food_fed\<lparr>wallet := wallet food_fed @
       [\<lparr>amount = PInt (- 10), description = ''Tea'', transfer = False\<rparr>]\<rparr>) =
     Num (PFloat (2589 / 100))"
    by (simp add: food_fed_def get_expense_total_def expense_step_def py_lt_def
        round_half_even_def)
  from e g r x t show ?thesis
    using expense_total_frame [of food_fed "Num (PInt 20)" "''Gift''" False
        "food_fed\<lparr>wallet := wallet food_fed @
           [\<lparr>amount = PInt 20, description = ''Gift'', transfer = False\<rparr>]\<rparr>"
        "fill_store(1 := food_fed)" 1 "Num (PInt 50)" "CategoryRef 4" 1]
      expense_total_frame [of food_fed "Num (PInt 20)" "''Gift''" False
        "food_fed\<lparr>wallet := wallet food_fed @
           [\<lparr>amount = PInt 20, description = ''Gift'', transfer = False\<rparr>]\<rparr>"
        "fill_store(1 := food_fed)" 1 "Num (PInt 50)" "CategoryRef 4" 4]
    by simp
qed

end
